theory Spec2Isabelle
  imports Main "HOL-Library.Word"
begin

section \<open>JavaScript strings\<close>

text \<open>
  A JavaScript string is a sequence of UTF-16 code units. \<open>split\<close> and a regular
  expression without the \<open>u\<close> flag both work on code units, so the model does too.
  \<open>lit\<close> turns an ASCII literal of the source into its code units.
\<close>

type_synonym code_unit = "16 word"
type_synonym jsstring = "code_unit list"

definition lit :: "string \<Rightarrow> jsstring" where
  "lit s = map (\<lambda>c. of_nat (of_char c)) s"

definition comma :: code_unit where
  "comma = 0x2C"

definition colon :: code_unit where
  "colon = 0x3A"

definition semicolon :: code_unit where
  "semicolon = 0x3B"

text \<open>
  The line terminators of ECMAScript (LF, CR, LS, PS): the code units that \<open>.\<close> in a
  regular expression without the \<open>s\<close> flag does not match.
\<close>

definition is_line_terminator :: "code_unit \<Rightarrow> bool" where
  "is_line_terminator c \<longleftrightarrow> c = 0x000A \<or> c = 0x000D \<or> c = 0x2028 \<or> c = 0x2029"

text \<open>
  \<open>s.split(sep)\<close> for a separator of one code unit: the pieces between all occurrences
  of the separator, in order. The result is never empty: \<open>"".split(",")\<close> is \<open>[""]\<close>.
\<close>

fun js_split :: "'a \<Rightarrow> 'a list \<Rightarrow> 'a list list" where
  "js_split sep [] = [[]]"
| "js_split sep (c # cs) =
     (if c = sep then [] # js_split sep cs
      else (case js_split sep cs of
              [] \<Rightarrow> [[c]]
            | p # ps \<Rightarrow> (c # p) # ps))"

text \<open>
  \<open>(.*?);\<close> tried at one position: the lazy star takes as few code units as it can, so
  the group ends at the first \<open>;\<close>; a line terminator before it ends the attempt.
  The result is the captured group.
\<close>

fun lazy_until_semicolon :: "jsstring \<Rightarrow> jsstring option" where
  "lazy_until_semicolon [] = None"
| "lazy_until_semicolon (c # cs) =
     (if c = semicolon then Some []
      else if is_line_terminator c then None
      else map_option ((#) c) (lazy_until_semicolon cs))"

text \<open>
  \<open>header.match(/:(.*?);/)\<close>: the leftmost position where the pattern matches.
  \<open>None\<close> is JavaScript's \<open>null\<close>; \<open>Some g\<close> is a match array whose element 1
  (the group) is \<open>g\<close>.
\<close>

fun match_mime :: "jsstring \<Rightarrow> jsstring option" where
  "match_mime [] = None"
| "match_mime (c # cs) =
     (if c = colon
      then (case lazy_until_semicolon cs of
              Some g \<Rightarrow> Some g
            | None \<Rightarrow> match_mime cs)
      else match_mime cs)"

text \<open>
  \<open>String(n)\<close> for an integral number below \<open>10\<^sup>2\<^sup>1\<close> in absolute value, which the
  milliseconds of \<open>Date.now()\<close> always are: the decimal digits, with a sign when negative.
\<close>

fun digits_of :: "nat \<Rightarrow> jsstring" where
  "digits_of n =
     (if n < 10 then [of_nat (48 + n)]
      else digits_of (n div 10) @ [of_nat (48 + n mod 10)])"

declare digits_of.simps [simp del]

definition number_to_string :: "int \<Rightarrow> jsstring" where
  "number_to_string n =
     (if n < 0 then lit ''-'' @ digits_of (nat (- n)) else digits_of (nat n))"

section \<open>Values thrown and promise results\<close>

text \<open>
  The event a \<open>FileReader\<close> hands to \<open>onerror\<close>: a host object without a \<open>message\<close>
  property. The payload stands for the name of the \<open>DOMException\<close> in \<open>reader.error\<close>.
\<close>

datatype progress_event = ProgressEvent jsstring

text \<open>
  What a promise of this program is rejected with: an \<open>Error\<close> made by \<open>new Error(msg)\<close>,
  or the host event passed through.
\<close>

datatype thrown = is_Error: Error jsstring | is_HostEvent: HostEvent progress_event

text \<open>The property read \<open>e.message\<close>; \<open>None\<close> is \<open>undefined\<close>.\<close>

fun message :: "thrown \<Rightarrow> jsstring option" where
  "message (Error m) = Some m"
| "message (HostEvent ev) = None"

text \<open>\<open>e.message || fallback\<close>: \<open>undefined\<close> and the empty string are falsy.\<close>

definition message_or :: "thrown \<Rightarrow> jsstring \<Rightarrow> jsstring" where
  "message_or e fallback =
     (case message e of
        None \<Rightarrow> fallback
      | Some m \<Rightarrow> if m = [] then fallback else m)"

section \<open>utils/fileUtils.ts\<close>

text \<open>
  What the \<open>FileReader\<close> reports after \<open>readAsDataURL(file)\<close>: \<open>onload\<close> with
  \<open>reader.result\<close> (\<open>None\<close> when it is not a string), or \<open>onerror\<close> with the event.
\<close>

datatype read_event = OnLoad "jsstring option" | OnError progress_event

record generative_part =
  mimeType :: jsstring
  data :: jsstring

text \<open>
  \<open>fileToGenerativePart\<close>, as a function of what the reader reports for the file.
  \<open>Inl\<close> is a rejected promise, \<open>Inr\<close> a resolved one. The array pattern
  \<open>[header, data]\<close> takes elements 0 and 1 of the split; with fewer than two elements
  \<open>data\<close> is \<open>undefined\<close>, which is falsy like the empty string.
\<close>

definition fileToGenerativePart :: "read_event \<Rightarrow> thrown + generative_part" where
  "fileToGenerativePart ev =
     (case ev of
        OnError event \<Rightarrow> Inl (HostEvent event)
      | OnLoad None \<Rightarrow> Inl (Error (lit ''Failed to read file as data URL.''))
      | OnLoad (Some result) \<Rightarrow>
          (case js_split comma result of
             header # data' # rest \<Rightarrow>
               if header = [] \<or> data' = []
               then Inl (Error (lit ''Invalid data URL format.''))
               else (case match_mime header of
                       None \<Rightarrow> Inl (Error (lit ''Could not extract MIME type from data URL.''))
                     | Some g \<Rightarrow>
                         if g = []
                         then Inl (Error (lit ''Could not extract MIME type from data URL.''))
                         else Inr \<lparr>mimeType = g, data = data'\<rparr>)
           | _ \<Rightarrow> Inl (Error (lit ''Invalid data URL format.''))))"

text \<open>
  The words of the specification about the encoder, as functions on the input string:
  the header (what precedes the first comma), what follows the first comma, and a header
  that contains \<open>:\<close>, then code units that \<open>.\<close> matches, then \<open>;\<close>.
\<close>

definition before_first_comma :: "jsstring \<Rightarrow> jsstring" where
  "before_first_comma s = takeWhile (\<lambda>c. c \<noteq> comma) s"

definition after_first_comma :: "jsstring \<Rightarrow> jsstring" where
  "after_first_comma s = drop 1 (dropWhile (\<lambda>c. c \<noteq> comma) s)"

definition has_mime_pattern :: "jsstring \<Rightarrow> bool" where
  "has_mime_pattern h \<longleftrightarrow>
     (\<exists>a g b. h = a @ colon # g @ semicolon # b \<and> (\<forall>c\<in>set g. \<not> is_line_terminator c))"

text \<open>A promise rejected with an \<open>Error\<close> object, the kind the encoder makes itself.\<close>

definition rejects_with_Error :: "thrown + 'a \<Rightarrow> bool" where
  "rejects_with_Error r = (case r of Inl e \<Rightarrow> is_Error e | Inr x \<Rightarrow> False)"

section \<open>The App component\<close>

text \<open>The six \<open>useState\<close> cells of \<open>App\<close>; \<open>'f\<close> is the host's \<open>File\<close>.\<close>

record 'f app_state =
  originalImageFile :: "'f option"
  originalImageDataUrl :: "jsstring option"
  editedImageData :: "jsstring option"
  prompt :: jsstring
  isLoading :: bool
  error :: "jsstring option"

definition initial_state :: "'f app_state" where
  "initial_state =
     \<lparr>originalImageFile = None, originalImageDataUrl = None, editedImageData = None,
      prompt = [], isLoading = False, error = None\<rparr>"

text \<open>The calls that leave the component, in the order they are made.\<close>

datatype 'f call = EncoderCall 'f | ServiceCall jsstring jsstring jsstring

text \<open>\<open>handleFileSelect\<close>, up to the start of the preview read.\<close>

definition handleFileSelect :: "'f \<Rightarrow> 'f app_state \<Rightarrow> 'f app_state" where
  "handleFileSelect file s =
     s\<lparr>originalImageFile := Some file, editedImageData := None, error := None\<rparr>"

text \<open>The \<open>onloadend\<close> of the preview reader; \<open>None\<close> is a \<open>null\<close> result.\<close>

definition preview_loaded :: "jsstring option \<Rightarrow> 'f app_state \<Rightarrow> 'f app_state" where
  "preview_loaded r s = s\<lparr>originalImageDataUrl := r\<rparr>"

definition validation_message :: jsstring where
  "validation_message = lit ''Please upload an image and provide a modification prompt.''"

definition unknown_error_message :: jsstring where
  "unknown_error_message = lit ''An unknown error occurred while communicating with the AI.''"

text \<open>Lines 98 to 100 of \<open>handleGenerate\<close>: the three setters before the \<open>try\<close>.\<close>

definition generate_begin :: "'f app_state \<Rightarrow> 'f app_state" where
  "generate_begin s = s\<lparr>isLoading := True, error := None, editedImageData := None\<rparr>"

text \<open>
  The \<open>try\<close> block for the file and prompt that the handler closed over: the encoder,
  then the service, then the template string. \<open>readAsDataURL\<close> and
  \<open>editImageWithGemini\<close> are the host and the remote service. The second component
  lists the calls made.
\<close>

definition generate_try ::
  "('f \<Rightarrow> read_event) \<Rightarrow> (jsstring \<Rightarrow> jsstring \<Rightarrow> jsstring \<Rightarrow> thrown + jsstring) \<Rightarrow>
   'f \<Rightarrow> jsstring \<Rightarrow> (thrown + jsstring) \<times> 'f call list" where
  "generate_try readAsDataURL editImageWithGemini file p =
     (case fileToGenerativePart (readAsDataURL file) of
        Inl e \<Rightarrow> (Inl e, [EncoderCall file])
      | Inr imagePart \<Rightarrow>
          (case editImageWithGemini (data imagePart) (mimeType imagePart) p of
             Inl e \<Rightarrow>
               (Inl e, [EncoderCall file, ServiceCall (data imagePart) (mimeType imagePart) p])
           | Inr resultBase64 \<Rightarrow>
               (Inr (lit ''data:'' @ mimeType imagePart @ lit '';base64,'' @ resultBase64),
                [EncoderCall file, ServiceCall (data imagePart) (mimeType imagePart) p])))"

text \<open>
  The end of the \<open>try\<close>, the \<open>catch\<close> and the \<open>finally\<close>, applied to the state at the
  time the promise settles.
\<close>

definition generate_settle :: "thrown + jsstring \<Rightarrow> 'f app_state \<Rightarrow> 'f app_state" where
  "generate_settle r s =
     (case r of
        Inr img \<Rightarrow> s\<lparr>editedImageData := Some img, isLoading := False\<rparr>
      | Inl e \<Rightarrow> s\<lparr>error := Some (message_or e unknown_error_message), isLoading := False\<rparr>)"

text \<open>
  \<open>handleGenerate\<close> run to its end with no other event in between. The result is the
  list of states the component goes through (one for each synchronous stretch of the
  handler) and the calls it made.
\<close>

definition handleGenerate ::
  "('f \<Rightarrow> read_event) \<Rightarrow> (jsstring \<Rightarrow> jsstring \<Rightarrow> jsstring \<Rightarrow> thrown + jsstring) \<Rightarrow>
   'f app_state \<Rightarrow> 'f app_state list \<times> 'f call list" where
  "handleGenerate readAsDataURL editImageWithGemini s =
     (case originalImageFile s of
        None \<Rightarrow> ([s\<lparr>error := Some validation_message\<rparr>], [])
      | Some file \<Rightarrow>
          if prompt s = [] then ([s\<lparr>error := Some validation_message\<rparr>], [])
          else (case generate_try readAsDataURL editImageWithGemini file (prompt s) of
                  (r, cs) \<Rightarrow> ([generate_begin s, generate_settle r (generate_begin s)], cs)))"

text \<open>
  \<open>handleDownload\<close> at time \<open>now\<close> (the value of \<open>Date.now()\<close>): the anchor element
  that is clicked, or nothing. \<open>!editedImageData\<close> holds for \<open>null\<close> and for the empty
  string. No state cell is written.
\<close>

record download_link =
  href :: jsstring
  download :: jsstring

definition handleDownload :: "int \<Rightarrow> 'f app_state \<Rightarrow> download_link option" where
  "handleDownload now s =
     (case editedImageData s of
        None \<Rightarrow> None
      | Some img \<Rightarrow>
          if img = [] then None
          else Some \<lparr>href = img,
                     download = lit ''h4x_edit_'' @ number_to_string now @ lit ''.png''\<rparr>)"

section \<open>The component as a transition system\<close>

text \<open>
  A session is the state of the component together with the invocations of
  \<open>handleGenerate\<close> that wait at an \<open>await\<close>, each with the file and prompt it closed
  over. An event handler runs to its next \<open>await\<close> without interruption, and the view
  is taken to be rendered from the current state when an event arrives.
\<close>

record 'f session =
  view :: "'f app_state"
  pending :: "('f \<times> jsstring) list"

datatype 'f event =
    SelectFile 'f
  | PreviewLoaded "jsstring option"
  | TypePrompt jsstring
  | ClickGenerate
  | Settle
  | ClickDownload int

text \<open>The \<open>disabled\<close> attribute of the Generate button.\<close>

definition generate_disabled :: "'f app_state \<Rightarrow> bool" where
  "generate_disabled s \<longleftrightarrow> isLoading s \<or> originalImageFile s = None \<or> prompt s = []"

text \<open>
  The condition under which the result image and the Download button are rendered:
  \<open>!isLoading && !error && editedImageData\<close>, where \<open>null\<close> and the empty string are
  falsy.
\<close>

definition download_rendered :: "'f app_state \<Rightarrow> bool" where
  "download_rendered s \<longleftrightarrow>
     \<not> isLoading s \<and> (error s = None \<or> error s = Some []) \<and>
     editedImageData s \<noteq> None \<and> editedImageData s \<noteq> Some []"

text \<open>
  One event. A click on a disabled button does nothing; otherwise \<open>handleGenerate\<close>
  runs up to its first \<open>await\<close>. \<open>Settle\<close> resumes the oldest waiting invocation with
  the outcome of its \<open>try\<close> block.
\<close>

definition ui_step ::
  "('f \<Rightarrow> read_event) \<Rightarrow> (jsstring \<Rightarrow> jsstring \<Rightarrow> jsstring \<Rightarrow> thrown + jsstring) \<Rightarrow>
   'f event \<Rightarrow> 'f session \<Rightarrow> 'f session" where
  "ui_step readAsDataURL editImageWithGemini ev \<sigma> =
     (case ev of
        SelectFile file \<Rightarrow> \<sigma>\<lparr>view := handleFileSelect file (view \<sigma>)\<rparr>
      | PreviewLoaded r \<Rightarrow> \<sigma>\<lparr>view := preview_loaded r (view \<sigma>)\<rparr>
      | TypePrompt p \<Rightarrow> \<sigma>\<lparr>view := (view \<sigma>)\<lparr>prompt := p\<rparr>\<rparr>
      | ClickGenerate \<Rightarrow>
          if generate_disabled (view \<sigma>) then \<sigma>
          else (case originalImageFile (view \<sigma>) of
                  None \<Rightarrow> \<sigma>\<lparr>view := (view \<sigma>)\<lparr>error := Some validation_message\<rparr>\<rparr>
                | Some file \<Rightarrow>
                    if prompt (view \<sigma>) = []
                    then \<sigma>\<lparr>view := (view \<sigma>)\<lparr>error := Some validation_message\<rparr>\<rparr>
                    else \<sigma>\<lparr>view := generate_begin (view \<sigma>),
                           pending := pending \<sigma> @ [(file, prompt (view \<sigma>))]\<rparr>)
      | Settle \<Rightarrow>
          (case pending \<sigma> of
             [] \<Rightarrow> \<sigma>
           | (file, p) # rest \<Rightarrow>
               \<sigma>\<lparr>view := generate_settle
                            (fst (generate_try readAsDataURL editImageWithGemini file p)) (view \<sigma>),
                   pending := rest\<rparr>)
      | ClickDownload now \<Rightarrow> \<sigma>)"

definition initial_session :: "'f session" where
  "initial_session = \<lparr>view = initial_state, pending = []\<rparr>"

fun run ::
  "('f \<Rightarrow> read_event) \<Rightarrow> (jsstring \<Rightarrow> jsstring \<Rightarrow> jsstring \<Rightarrow> thrown + jsstring) \<Rightarrow>
   'f event list \<Rightarrow> 'f session \<Rightarrow> 'f session" where
  "run rd svc [] \<sigma> = \<sigma>"
| "run rd svc (ev # evs) \<sigma> = run rd svc evs (ui_step rd svc ev \<sigma>)"

text \<open>The three ways a settled session can look.\<close>

definition no_result :: "'f app_state \<Rightarrow> bool" where
  "no_result s \<longleftrightarrow> editedImageData s = None \<and> error s = None"

definition success_result :: "'f app_state \<Rightarrow> bool" where
  "success_result s \<longleftrightarrow> editedImageData s \<noteq> None \<and> error s = None"

definition error_result :: "'f app_state \<Rightarrow> bool" where
  "error_result s \<longleftrightarrow> editedImageData s = None \<and> error s \<noteq> None"

text \<open>
  What holds of every session that the events can produce: the loading flag is set exactly
  while an invocation waits, at most one waits, nothing is shown while loading, a result
  and an error are never held together, and a held result is not the empty string.
\<close>

definition session_inv :: "'f session \<Rightarrow> bool" where
  "session_inv \<sigma> \<longleftrightarrow>
     (isLoading (view \<sigma>) \<longleftrightarrow> pending \<sigma> \<noteq> []) \<and>
     length (pending \<sigma>) \<le> 1 \<and>
     (isLoading (view \<sigma>) \<longrightarrow> editedImageData (view \<sigma>) = None \<and> error (view \<sigma>) = None) \<and>
     (editedImageData (view \<sigma>) = None \<or> error (view \<sigma>) = None) \<and>
     editedImageData (view \<sigma>) \<noteq> Some []"

text \<open>The number that a string of decimal digits denotes.\<close>

definition decimal_value :: "jsstring \<Rightarrow> nat" where
  "decimal_value ds = foldl (\<lambda>v d. 10 * v + (unat d - 48)) 0 ds"

section \<open>Facts about the string functions\<close>


lemma js_split_not_Nil: "js_split sep s \<noteq> []"
  by (induction s) (auto split: list.splits)

lemma js_split_no_sep: "sep \<notin> set s \<Longrightarrow> js_split sep s = [s]"
  by (induction s) auto

lemma js_split_first: "sep \<notin> set h \<Longrightarrow> js_split sep (h @ sep # t) = h # js_split sep t"
  by (induction h) (auto split: list.splits simp: js_split_not_Nil)

lemma lazy_until_semicolon_hit:
  "semicolon \<notin> set g \<Longrightarrow> \<forall>c\<in>set g. \<not> is_line_terminator c \<Longrightarrow>
   lazy_until_semicolon (g @ semicolon # b) = Some g"
  by (induction g) auto

lemma lazy_until_semicolon_SomeD:
  "lazy_until_semicolon s = Some g \<Longrightarrow>
   \<exists>b. s = g @ semicolon # b \<and> semicolon \<notin> set g \<and> (\<forall>c\<in>set g. \<not> is_line_terminator c)"
proof (induction s arbitrary: g)
  case Nil
  then show ?case by simp
next
  case (Cons c cs)
  show ?case
  proof (cases "c = semicolon")
    case True
    with Cons.prems show ?thesis by auto
  next
    case False
    with Cons.prems obtain g' where g': "lazy_until_semicolon cs = Some g'" "g = c # g'"
      and nl: "\<not> is_line_terminator c"
      by (auto split: if_splits)
    from Cons.IH [OF g'(1)] obtain b where
      "cs = g' @ semicolon # b" "semicolon \<notin> set g'" "\<forall>c\<in>set g'. \<not> is_line_terminator c"
      by blast
    with g' nl False show ?thesis by auto
  qed
qed

lemma lazy_until_semicolon_not_None:
  "\<forall>c\<in>set g. \<not> is_line_terminator c \<Longrightarrow> lazy_until_semicolon (g @ semicolon # b) \<noteq> None"
  by (induction g) auto

lemma match_mime_first_colon:
  "colon \<notin> set a \<Longrightarrow> lazy_until_semicolon t = Some g \<Longrightarrow> match_mime (a @ colon # t) = Some g"
  by (induction a) auto

lemma match_mime_SomeD:
  "match_mime h = Some g \<Longrightarrow>
   \<exists>a b. h = a @ colon # g @ semicolon # b \<and> semicolon \<notin> set g \<and>
         (\<forall>c\<in>set g. \<not> is_line_terminator c)"
proof (induction h)
  case Nil
  then show ?case by simp
next
  case (Cons c cs)
  show ?case
  proof (cases "c = colon \<and> lazy_until_semicolon cs \<noteq> None")
    case True
    with Cons.prems have "lazy_until_semicolon cs = Some g" by auto
    from lazy_until_semicolon_SomeD [OF this] obtain b where
      "cs = g @ semicolon # b" "semicolon \<notin> set g" "\<forall>c\<in>set g. \<not> is_line_terminator c"
      by blast
    with True have "c # cs = [] @ colon # g @ semicolon # b" by simp
    with \<open>semicolon \<notin> set g\<close> \<open>\<forall>c\<in>set g. \<not> is_line_terminator c\<close> show ?thesis by blast
  next
    case False
    with Cons.prems have "match_mime cs = Some g" by (auto split: if_splits option.splits)
    from Cons.IH [OF this] obtain a b where
      "cs = a @ colon # g @ semicolon # b" "semicolon \<notin> set g" "\<forall>c\<in>set g. \<not> is_line_terminator c"
      by blast
    then have "c # cs = (c # a) @ colon # g @ semicolon # b" by simp
    with \<open>semicolon \<notin> set g\<close> \<open>\<forall>c\<in>set g. \<not> is_line_terminator c\<close> show ?thesis by blast
  qed
qed

lemma match_mime_not_None:
  "\<forall>c\<in>set g. \<not> is_line_terminator c \<Longrightarrow> match_mime (a @ colon # g @ semicolon # b) \<noteq> None"
proof (induction a)
  case Nil
  then show ?case using lazy_until_semicolon_not_None [of g b] by (auto split: option.splits)
next
  case (Cons x a)
  then show ?case by (auto split: option.splits)
qed

lemma js_split_shape:
  "js_split sep s =
     takeWhile (\<lambda>c. c \<noteq> sep) s #
       (case dropWhile (\<lambda>c. c \<noteq> sep) s of [] \<Rightarrow> [] | x # t \<Rightarrow> js_split sep t)"
  by (induction s) (auto split: list.splits)

lemma before_first_comma_append:
  "comma \<notin> set h \<Longrightarrow> before_first_comma (h @ comma # t) = h"
  by (induction h) (auto simp: before_first_comma_def)

lemma after_first_comma_append:
  "comma \<notin> set h \<Longrightarrow> after_first_comma (h @ comma # t) = t"
  by (induction h) (auto simp: after_first_comma_def)

lemma has_mime_pattern_iff: "has_mime_pattern h \<longleftrightarrow> match_mime h \<noteq> None"
proof
  assume "has_mime_pattern h"
  then show "match_mime h \<noteq> None"
    unfolding has_mime_pattern_def using match_mime_not_None by blast
next
  assume "match_mime h \<noteq> None"
  then obtain g where "match_mime h = Some g" by blast
  from match_mime_SomeD [OF this] show "has_mime_pattern h"
    unfolding has_mime_pattern_def by blast
qed

lemma encoder_no_comma:
  "comma \<notin> set s \<Longrightarrow>
   fileToGenerativePart (OnLoad (Some s)) = Inl (Error (lit ''Invalid data URL format.''))"
  by (simp add: fileToGenerativePart_def js_split_no_sep)

lemma encoder_with_comma:
  assumes "comma \<notin> set h"
  shows "fileToGenerativePart (OnLoad (Some (h @ comma # t))) =
     (if h = [] \<or> takeWhile (\<lambda>c. c \<noteq> comma) t = []
      then Inl (Error (lit ''Invalid data URL format.''))
      else (case match_mime h of
              None \<Rightarrow> Inl (Error (lit ''Could not extract MIME type from data URL.''))
            | Some g \<Rightarrow>
                if g = [] then Inl (Error (lit ''Could not extract MIME type from data URL.''))
                else Inr \<lparr>mimeType = g, data = takeWhile (\<lambda>c. c \<noteq> comma) t\<rparr>))"
proof -
  obtain rest where "js_split comma (h @ comma # t) = h # takeWhile (\<lambda>c. c \<noteq> comma) t # rest"
    using js_split_first [OF assms, of t] js_split_shape [of comma t] by simp
  then show ?thesis
    by (simp add: fileToGenerativePart_def)
qed

lemma lit_data_url_prefix: "lit ''data:'' = lit ''data'' @ [colon]"
  by (simp add: lit_def colon_def)

lemma lit_base64_marker: "lit '';base64,'' = semicolon # lit ''base64'' @ [comma]"
  by (simp add: lit_def semicolon_def comma_def)

lemma lit_data_no_delimiter: "colon \<notin> set (lit ''data'')" "comma \<notin> set (lit ''data'')"
  by (simp_all add: lit_def colon_def comma_def)

lemma lit_base64_no_comma: "comma \<notin> set (lit ''base64'')"
  by (simp add: lit_def comma_def)

lemma colon_not_comma: "colon \<noteq> comma" "semicolon \<noteq> comma"
  by (simp_all add: colon_def comma_def semicolon_def)

lemma encoder_cases:
  "fileToGenerativePart (OnLoad (Some s)) =
     (if comma \<notin> set s \<or> before_first_comma s = [] \<or>
         takeWhile (\<lambda>c. c \<noteq> comma) (after_first_comma s) = []
      then Inl (Error (lit ''Invalid data URL format.''))
      else (case match_mime (before_first_comma s) of
              None \<Rightarrow> Inl (Error (lit ''Could not extract MIME type from data URL.''))
            | Some g \<Rightarrow>
                if g = [] then Inl (Error (lit ''Could not extract MIME type from data URL.''))
                else Inr \<lparr>mimeType = g,
                          data = takeWhile (\<lambda>c. c \<noteq> comma) (after_first_comma s)\<rparr>))"
proof (cases "comma \<in> set s")
  case False
  then show ?thesis by (simp add: encoder_no_comma)
next
  case True
  then obtain h t where s: "s = h @ comma # t" and h: "comma \<notin> set h"
    by (auto dest: split_list_first)
  show ?thesis
    unfolding s encoder_with_comma [OF h] before_first_comma_append [OF h]
      after_first_comma_append [OF h]
    by simp
qed

lemma encoder_fields_not_empty:
  "fileToGenerativePart ev = Inr part \<Longrightarrow> mimeType part \<noteq> [] \<and> data part \<noteq> []"
  by (auto simp: fileToGenerativePart_def
      split: read_event.splits option.splits list.splits if_splits)

lemma unat_digit: "d < 10 \<Longrightarrow> unat (of_nat (48 + d) :: code_unit) = 48 + d"
  by (subst unat_of_nat) simp

lemma decimal_value_digits_of: "decimal_value (digits_of n) = n"
proof (induction n rule: digits_of.induct)
  case (1 n)
  show ?case
  proof (cases "n < 10")
    case True
    then show ?thesis
      by (subst digits_of.simps) (simp add: decimal_value_def unat_digit del: of_nat_add)
  next
    case False
    with 1 have "decimal_value (digits_of (n div 10)) = n div 10" by simp
    moreover have "unat (of_nat (48 + n mod 10) :: code_unit) = 48 + n mod 10"
      by (rule unat_digit) simp
    ultimately show ?thesis using False
      by (subst digits_of.simps) (simp add: decimal_value_def del: of_nat_add)
  qed
qed

section \<open>Facts about the component\<close>

lemma generate_try_image_not_empty:
  "fst (generate_try rd svc file p) = Inr img \<Longrightarrow> img \<noteq> []"
  by (auto simp: generate_try_def lit_def split: sum.splits)

lemma session_inv_initial: "session_inv initial_session"
  by (simp add: session_inv_def initial_session_def initial_state_def)

lemma session_inv_step:
  assumes "session_inv \<sigma>"
  shows "session_inv (ui_step rd svc ev \<sigma>)"
proof (cases ev)
  case (SelectFile f)
  with assms show ?thesis
    by (auto simp: session_inv_def ui_step_def handleFileSelect_def)
next
  case (PreviewLoaded r)
  with assms show ?thesis
    by (auto simp: session_inv_def ui_step_def preview_loaded_def)
next
  case (TypePrompt p)
  with assms show ?thesis
    by (auto simp: session_inv_def ui_step_def)
next
  case ClickGenerate
  show ?thesis
  proof (cases "generate_disabled (view \<sigma>)")
    case True
    with assms ClickGenerate show ?thesis by (simp add: ui_step_def)
  next
    case False
    then obtain f where "originalImageFile (view \<sigma>) = Some f"
      "prompt (view \<sigma>) \<noteq> []" "\<not> isLoading (view \<sigma>)"
      by (auto simp: generate_disabled_def)
    with assms ClickGenerate False show ?thesis
      by (simp add: session_inv_def ui_step_def generate_begin_def)
  qed
next
  case Settle
  show ?thesis
  proof (cases "pending \<sigma>")
    case Nil
    with assms Settle show ?thesis by (simp add: ui_step_def)
  next
    case (Cons fp rest)
    obtain f p where fp: "fp = (f, p)" by (cases fp)
    from assms Cons have rest: "rest = []" and busy: "isLoading (view \<sigma>)"
      and clear: "editedImageData (view \<sigma>) = None" "error (view \<sigma>) = None"
      by (auto simp: session_inv_def)
    show ?thesis
    proof (cases "fst (generate_try rd svc f p)")
      case (Inl e)
      with Settle Cons fp rest clear show ?thesis
        by (simp add: session_inv_def ui_step_def generate_settle_def)
    next
      case (Inr img)
      from generate_try_image_not_empty [OF Inr] have "img \<noteq> []" .
      with Inr Settle Cons fp rest clear show ?thesis
        by (simp add: session_inv_def ui_step_def generate_settle_def)
    qed
  qed
next
  case (ClickDownload now)
  with assms show ?thesis by (simp add: ui_step_def)
qed

lemma session_inv_run: "session_inv \<sigma> \<Longrightarrow> session_inv (run rd svc evs \<sigma>)"
  by (induction evs arbitrary: \<sigma>) (auto intro: session_inv_step)

lemma session_inv_reachable: "session_inv (run rd svc evs initial_session)"
  by (rule session_inv_run [OF session_inv_initial])

text \<open>
  The validation branch of \<open>handleGenerate\<close> writes the error cell only. Called on a
  state that holds a result, it would leave a result and an error side by side; the
  \<open>disabled\<close> attribute of the button is what keeps it from running there.
\<close>

lemma validation_branch_keeps_result:
  assumes "editedImageData s = Some img" and "originalImageFile s = None \<or> prompt s = []"
  shows "fst (handleGenerate rd svc s) =
           [s\<lparr>error := Some validation_message\<rparr>] \<and>
         editedImageData (s\<lparr>error := Some validation_message\<rparr>) = Some img"
  using assms by (auto simp: handleGenerate_def split: option.splits)

lemma click_on_enabled_button_starts_request:
  assumes "\<not> generate_disabled (view \<sigma>)"
  shows "view (ui_step rd svc ClickGenerate \<sigma>) = generate_begin (view \<sigma>)"
  using assms by (auto simp: ui_step_def generate_disabled_def)

lemma handleDownload_None_iff:
  "handleDownload now s = None \<longleftrightarrow> editedImageData s = None \<or> editedImageData s = Some []"
  by (simp add: handleDownload_def split: option.splits)

section \<open>Claims about the encoder\<close>

text \<open>
  C1. On a well-formed encoded string \<open>data:<mime>;base64,<payload>\<close> the encoder
  resolves with exactly the MIME type and the payload. Well-formed is: the MIME type is
  not empty and has no \<open>;\<close>, no \<open>,\<close> and no line terminator in it, and the payload is
  not empty and has no \<open>,\<close> in it (a base-64 payload never has).
\<close>

theorem C1_encoder_well_formed:
  assumes "mime \<noteq> []" and "payload \<noteq> []"
    and "semicolon \<notin> set mime" and "comma \<notin> set mime"
    and "\<forall>c\<in>set mime. \<not> is_line_terminator c"
    and "comma \<notin> set payload"
  shows "fileToGenerativePart (OnLoad (Some (lit ''data:'' @ mime @ lit '';base64,'' @ payload))) =
         Inr \<lparr>mimeType = mime, data = payload\<rparr>"
proof -
  let ?h = "lit ''data'' @ colon # mime @ semicolon # lit ''base64''"
  have shape: "lit ''data:'' @ mime @ lit '';base64,'' @ payload = ?h @ comma # payload"
    by (simp add: lit_data_url_prefix lit_base64_marker)
  have no_comma: "comma \<notin> set ?h"
    using assms(4) lit_data_no_delimiter(2) lit_base64_no_comma colon_not_comma by auto
  have "lazy_until_semicolon (mime @ semicolon # lit ''base64'') = Some mime"
    using assms(3,5) by (rule lazy_until_semicolon_hit)
  then have m: "match_mime ?h = Some mime"
    using lit_data_no_delimiter(1) by (rule match_mime_first_colon [rotated])
  have p: "takeWhile (\<lambda>c. c \<noteq> comma) payload = payload"
    using assms(6) by auto
  show ?thesis
    unfolding shape encoder_with_comma [OF no_comma] p m using assms(1,2) by simp
qed

theorem C1_encoder_well_formed_witness:
  "lit ''image/png'' \<noteq> [] \<and> lit ''iVBORw0KGgo='' \<noteq> [] \<and>
   semicolon \<notin> set (lit ''image/png'') \<and> comma \<notin> set (lit ''image/png'') \<and>
   \<not> list_ex is_line_terminator (lit ''image/png'') \<and>
   comma \<notin> set (lit ''iVBORw0KGgo='') \<and>
   fileToGenerativePart
     (OnLoad (Some (lit ''data:'' @ lit ''image/png'' @ lit '';base64,'' @ lit ''iVBORw0KGgo=''))) =
   Inr \<lparr>mimeType = lit ''image/png'', data = lit ''iVBORw0KGgo=''\<rparr>"
  using C1_encoder_well_formed [of "lit ''image/png''" "lit ''iVBORw0KGgo=''"]
  by (simp add: lit_def comma_def semicolon_def is_line_terminator_def)

text \<open>
  The data field is not always all that follows the first comma: \<open>split\<close> cuts at
  every comma and the array pattern takes the second piece only.
\<close>

theorem C2_data_is_not_rest_counterexample:
  "fileToGenerativePart (OnLoad (Some (lit ''data:image/png;base64,AAA,BBB''))) =
     Inr \<lparr>mimeType = lit ''image/png'', data = lit ''AAA''\<rparr> \<and>
   after_first_comma (lit ''data:image/png;base64,AAA,BBB'') = lit ''AAA,BBB'' \<and>
   lit ''AAA'' \<noteq> lit ''AAA,BBB''"
  by (simp add: fileToGenerativePart_def after_first_comma_def lit_def comma_def colon_def
      semicolon_def is_line_terminator_def)

text \<open>
  C2, amended. Whenever the encoder resolves, the data field is what follows the first
  comma up to the next comma or the end of the string (all that follows the first comma
  when no further comma occurs there), and the MIME type is the part of the header between
  a \<open>:\<close> and the first \<open>;\<close> after it.
\<close>

theorem C2_split_amended:
  assumes "fileToGenerativePart (OnLoad (Some s)) = Inr part"
  shows "data part = takeWhile (\<lambda>c. c \<noteq> comma) (after_first_comma s) \<and>
         (comma \<notin> set (after_first_comma s) \<longrightarrow> data part = after_first_comma s) \<and>
         (\<exists>a b. before_first_comma s = a @ colon # mimeType part @ semicolon # b \<and>
                semicolon \<notin> set (mimeType part))"
proof -
  from assms obtain g where g: "match_mime (before_first_comma s) = Some g"
    and part: "part = \<lparr>mimeType = g, data = takeWhile (\<lambda>c. c \<noteq> comma) (after_first_comma s)\<rparr>"
    unfolding encoder_cases by (auto split: if_splits option.splits)
  from match_mime_SomeD [OF g] obtain a b where
    "before_first_comma s = a @ colon # g @ semicolon # b" "semicolon \<notin> set g"
    by blast
  with part show ?thesis by auto
qed

theorem C2_split_amended_witness:
  "fileToGenerativePart (OnLoad (Some (lit ''data:image/jpeg;base64,LzlqLzRB''))) =
     Inr \<lparr>mimeType = lit ''image/jpeg'', data = lit ''LzlqLzRB''\<rparr> \<and>
   comma \<notin> set (after_first_comma (lit ''data:image/jpeg;base64,LzlqLzRB'')) \<and>
   lit ''LzlqLzRB'' = after_first_comma (lit ''data:image/jpeg;base64,LzlqLzRB'') \<and>
   (\<exists>a b. before_first_comma (lit ''data:image/jpeg;base64,LzlqLzRB'') =
            a @ colon # lit ''image/jpeg'' @ semicolon # b \<and>
          semicolon \<notin> set (lit ''image/jpeg''))"
proof -
  have e: "fileToGenerativePart (OnLoad (Some (lit ''data:image/jpeg;base64,LzlqLzRB''))) =
     Inr \<lparr>mimeType = lit ''image/jpeg'', data = lit ''LzlqLzRB''\<rparr>"
    by (simp add: fileToGenerativePart_def lit_def comma_def colon_def
      semicolon_def is_line_terminator_def)
  have c: "comma \<notin> set (after_first_comma (lit ''data:image/jpeg;base64,LzlqLzRB''))"
    by (simp add: after_first_comma_def lit_def comma_def)
  note r = C2_split_amended [OF e, unfolded generative_part.select_convs]
  from r c have d: "lit ''LzlqLzRB'' = after_first_comma (lit ''data:image/jpeg;base64,LzlqLzRB'')"
    by blast
  from r have m: "\<exists>a b. before_first_comma (lit ''data:image/jpeg;base64,LzlqLzRB'') =
            a @ colon # lit ''image/jpeg'' @ semicolon # b \<and>
          semicolon \<notin> set (lit ''image/jpeg'')"
    by blast
  from e c d m show ?thesis by blast
qed

text \<open>
  C3. A string without a comma is rejected with the error \<open>Invalid data URL format.\<close>;
  a string whose header has no \<open>:\<close> followed, on the same line, by \<open>;\<close> is rejected as
  well, with that message when the split already fails (no comma, empty header or empty
  data) and with \<open>Could not extract MIME type from data URL.\<close> otherwise. In neither
  case does the promise resolve.
\<close>

theorem C3_encoder_malformed:
  "(comma \<notin> set s \<longrightarrow>
      fileToGenerativePart (OnLoad (Some s)) = Inl (Error (lit ''Invalid data URL format.''))) \<and>
   (\<not> has_mime_pattern (before_first_comma s) \<longrightarrow>
      fileToGenerativePart (OnLoad (Some s)) =
        Inl (Error
          (if comma \<notin> set s \<or> before_first_comma s = [] \<or>
              takeWhile (\<lambda>c. c \<noteq> comma) (after_first_comma s) = []
           then lit ''Invalid data URL format.''
           else lit ''Could not extract MIME type from data URL.'')))"
proof (intro conjI impI)
  assume "comma \<notin> set s"
  then show "fileToGenerativePart (OnLoad (Some s)) = Inl (Error (lit ''Invalid data URL format.''))"
    by (rule encoder_no_comma)
next
  assume "\<not> has_mime_pattern (before_first_comma s)"
  then have "match_mime (before_first_comma s) = None"
    by (simp add: has_mime_pattern_iff)
  then show "fileToGenerativePart (OnLoad (Some s)) =
        Inl (Error
          (if comma \<notin> set s \<or> before_first_comma s = [] \<or>
              takeWhile (\<lambda>c. c \<noteq> comma) (after_first_comma s) = []
           then lit ''Invalid data URL format.''
           else lit ''Could not extract MIME type from data URL.''))"
    unfolding encoder_cases by simp
qed

theorem C3_encoder_malformed_witness:
  "comma \<notin> set (lit ''data:image/png;base64'') \<and>
   fileToGenerativePart (OnLoad (Some (lit ''data:image/png;base64''))) =
     Inl (Error (lit ''Invalid data URL format.'')) \<and>
   \<not> has_mime_pattern (before_first_comma (lit ''data-image/png-base64,iVBORw0KGgo='')) \<and>
   fileToGenerativePart (OnLoad (Some (lit ''data-image/png-base64,iVBORw0KGgo=''))) =
     Inl (Error (lit ''Could not extract MIME type from data URL.''))"
proof -
  have a: "comma \<notin> set (lit ''data:image/png;base64'')"
    by (simp add: lit_def comma_def)
  have b: "\<not> has_mime_pattern (before_first_comma (lit ''data-image/png-base64,iVBORw0KGgo=''))"
    by (simp add: has_mime_pattern_iff before_first_comma_def lit_def comma_def colon_def)
  have c: "\<not> (comma \<notin> set (lit ''data-image/png-base64,iVBORw0KGgo='') \<or>
      before_first_comma (lit ''data-image/png-base64,iVBORw0KGgo='') = [] \<or>
      takeWhile (\<lambda>c. c \<noteq> comma) (after_first_comma (lit ''data-image/png-base64,iVBORw0KGgo='')) = [])"
    by (simp add: before_first_comma_def after_first_comma_def lit_def comma_def)
  from C3_encoder_malformed [of "lit ''data:image/png;base64''"] a
  have r1: "fileToGenerativePart (OnLoad (Some (lit ''data:image/png;base64''))) =
     Inl (Error (lit ''Invalid data URL format.''))"
    by blast
  from C3_encoder_malformed [of "lit ''data-image/png-base64,iVBORw0KGgo=''"] b
  have "fileToGenerativePart (OnLoad (Some (lit ''data-image/png-base64,iVBORw0KGgo=''))) =
        Inl (Error
          (if comma \<notin> set (lit ''data-image/png-base64,iVBORw0KGgo='') \<or>
              before_first_comma (lit ''data-image/png-base64,iVBORw0KGgo='') = [] \<or>
              takeWhile (\<lambda>c. c \<noteq> comma) (after_first_comma (lit ''data-image/png-base64,iVBORw0KGgo='')) = []
           then lit ''Invalid data URL format.''
           else lit ''Could not extract MIME type from data URL.''))"
    by blast
  with c have r2: "fileToGenerativePart (OnLoad (Some (lit ''data-image/png-base64,iVBORw0KGgo=''))) =
     Inl (Error (lit ''Could not extract MIME type from data URL.''))"
    by (simp only: if_False)
  from a r1 b r2 show ?thesis by blast
qed

text \<open>
  When the read itself fails, the promise is not rejected with an \<open>Error\<close> object as in
  the encoder's other failures.
\<close>

theorem C8_read_error_is_not_Error_counterexample:
  "\<not> rejects_with_Error
       (fileToGenerativePart (OnError (ProgressEvent (lit ''NotReadableError''))))"
  by (simp add: rejects_with_Error_def fileToGenerativePart_def)

text \<open>
  C8, amended. When the read itself fails, the encoder rejects with the event that the
  host reported, passed through as it is; that event has no \<open>message\<close>.
\<close>

theorem C8_read_error_passed_through:
  "fileToGenerativePart (OnError event) = Inl (HostEvent event) \<and>
   message (HostEvent event) = None"
  by (simp add: fileToGenerativePart_def)

text \<open>
  C10. A string that ends with its first comma (an empty payload) is rejected with
  \<open>Invalid data URL format.\<close>; a string whose first \<open>:\<close> is directly followed by \<open>;\<close>
  (an empty MIME type) and whose data is not empty is rejected with
  \<open>Could not extract MIME type from data URL.\<close>; and a resolved promise never carries an
  empty \<open>mimeType\<close> or \<open>data\<close>.
\<close>

theorem C10_encoder_rejects_empty_fields:
  "(comma \<notin> set h \<longrightarrow>
      fileToGenerativePart (OnLoad (Some (h @ [comma]))) =
        Inl (Error (lit ''Invalid data URL format.''))) \<and>
   (colon \<notin> set a \<and> comma \<notin> set a \<and> comma \<notin> set b \<and> payload \<noteq> [] \<and>
    hd payload \<noteq> comma \<longrightarrow>
      fileToGenerativePart (OnLoad (Some (a @ colon # semicolon # b @ comma # payload))) =
        Inl (Error (lit ''Could not extract MIME type from data URL.''))) \<and>
   (fileToGenerativePart ev = Inr part \<longrightarrow> mimeType part \<noteq> [] \<and> data part \<noteq> [])"
proof -
  have empty_payload: "fileToGenerativePart (OnLoad (Some (h @ [comma]))) =
        Inl (Error (lit ''Invalid data URL format.''))" if "comma \<notin> set h"
    using that by (simp add: encoder_with_comma)
  have empty_mime:
    "fileToGenerativePart (OnLoad (Some (a @ colon # semicolon # b @ comma # payload))) =
        Inl (Error (lit ''Could not extract MIME type from data URL.''))"
    if A: "colon \<notin> set a \<and> comma \<notin> set a \<and> comma \<notin> set b \<and> payload \<noteq> [] \<and>
      hd payload \<noteq> comma"
  proof -
    let ?h = "a @ colon # semicolon # b"
    have h: "comma \<notin> set ?h"
      using A colon_not_comma by auto
    have "lazy_until_semicolon (semicolon # b) = Some []" by simp
    with A have m: "match_mime ?h = Some []"
      by (simp add: match_mime_first_colon)
    have p: "takeWhile (\<lambda>c. c \<noteq> comma) payload \<noteq> []"
      using A by (cases payload) auto
    have "fileToGenerativePart (OnLoad (Some (?h @ comma # payload))) =
          Inl (Error (lit ''Could not extract MIME type from data URL.''))"
      unfolding encoder_with_comma [OF h] m using A p by simp
    then show ?thesis by simp
  qed
  from empty_payload empty_mime encoder_fields_not_empty [of ev part]
  show ?thesis by blast
qed

theorem C10_encoder_rejects_empty_fields_witness:
  "fileToGenerativePart (OnLoad (Some (lit ''data:image/png;base64,''))) =
     Inl (Error (lit ''Invalid data URL format.'')) \<and>
   fileToGenerativePart (OnLoad (Some (lit ''data:;base64,AAAA''))) =
     Inl (Error (lit ''Could not extract MIME type from data URL.'')) \<and>
   fileToGenerativePart (OnLoad (Some (lit ''data:image/png;base64,AAAA''))) =
     Inr \<lparr>mimeType = lit ''image/png'', data = lit ''AAAA''\<rparr> \<and>
   lit ''image/png'' \<noteq> [] \<and> lit ''AAAA'' \<noteq> []"
proof -
  have s1: "lit ''data:image/png;base64,'' = lit ''data:image/png;base64'' @ [comma]"
    by (simp add: lit_def comma_def)
  have s2: "lit ''data:;base64,AAAA'' =
      lit ''data'' @ colon # semicolon # lit ''base64'' @ comma # lit ''AAAA''"
    by (simp add: lit_def comma_def colon_def semicolon_def)
  have h1: "comma \<notin> set (lit ''data:image/png;base64'')"
    by (simp add: lit_def comma_def)
  have h2: "colon \<notin> set (lit ''data'') \<and> comma \<notin> set (lit ''data'') \<and>
      comma \<notin> set (lit ''base64'') \<and> lit ''AAAA'' \<noteq> [] \<and> hd (lit ''AAAA'') \<noteq> comma"
    by (simp add: lit_def comma_def colon_def)
  have e3: "fileToGenerativePart (OnLoad (Some (lit ''data:image/png;base64,AAAA''))) =
     Inr \<lparr>mimeType = lit ''image/png'', data = lit ''AAAA''\<rparr>"
    by (simp add: fileToGenerativePart_def lit_def comma_def colon_def semicolon_def
        is_line_terminator_def)
  note r = C10_encoder_rejects_empty_fields [of "lit ''data:image/png;base64''"
      "lit ''data''" "lit ''base64''" "lit ''AAAA''"
      "OnLoad (Some (lit ''data:image/png;base64,AAAA''))"
      "\<lparr>mimeType = lit ''image/png'', data = lit ''AAAA''\<rparr>",
      unfolded generative_part.select_convs, folded s1 s2]
  from r h1 have r1: "fileToGenerativePart (OnLoad (Some (lit ''data:image/png;base64,''))) =
     Inl (Error (lit ''Invalid data URL format.''))" by blast
  from r h2 have r2: "fileToGenerativePart (OnLoad (Some (lit ''data:;base64,AAAA''))) =
     Inl (Error (lit ''Could not extract MIME type from data URL.''))" by blast
  from r e3 have r3: "lit ''image/png'' \<noteq> [] \<and> lit ''AAAA'' \<noteq> []" by blast
  from r1 r2 e3 r3 show ?thesis by blast
qed

section \<open>Claims about the App component\<close>

text \<open>
  C4. When no file is selected or the prompt is empty, \<open>handleGenerate\<close> goes through a
  single state, the old one with the validation message as error; the loading flag is
  what it was, and neither the encoder nor the service is called.
\<close>

theorem C4_generate_rejected:
  assumes "originalImageFile s = None \<or> prompt s = []"
  shows "fst (handleGenerate rd svc s) =
           [s\<lparr>error := Some (lit ''Please upload an image and provide a modification prompt.'')\<rparr>] \<and>
         list_all (\<lambda>s'. isLoading s' = isLoading s) (fst (handleGenerate rd svc s)) \<and>
         snd (handleGenerate rd svc s) = []"
  using assms
  by (auto simp: handleGenerate_def validation_message_def split: option.splits)

theorem C4_generate_rejected_witness:
  "originalImageFile (initial_state :: nat app_state) = None \<and>
   fst (handleGenerate (\<lambda>f. OnLoad None) (\<lambda>d m p. Inr []) (initial_state :: nat app_state)) =
     [initial_state\<lparr>error := Some (lit ''Please upload an image and provide a modification prompt.'')\<rparr>] \<and>
   snd (handleGenerate (\<lambda>f. OnLoad None) (\<lambda>d m p. Inr []) (initial_state :: nat app_state)) = [] \<and>
   prompt (initial_state\<lparr>originalImageFile := Some (0::nat)\<rparr>) = [] \<and>
   snd (handleGenerate (\<lambda>f. OnLoad None) (\<lambda>d m p. Inr [])
          (initial_state\<lparr>originalImageFile := Some (0::nat)\<rparr>)) = []"
proof -
  have a: "originalImageFile (initial_state :: nat app_state) = None"
    and b: "prompt (initial_state\<lparr>originalImageFile := Some (0::nat)\<rparr>) = []"
    by (simp_all add: initial_state_def)
  from a b
    C4_generate_rejected [of "initial_state :: nat app_state" "\<lambda>f. OnLoad None" "\<lambda>d m p. Inr []"]
    C4_generate_rejected [of "initial_state\<lparr>originalImageFile := Some (0::nat)\<rparr>"
      "\<lambda>f. OnLoad None" "\<lambda>d m p. Inr []"]
  show ?thesis by blast
qed

text \<open>
  C5. With a file and a prompt, when the encoder resolves with \<open>part\<close> and the service
  with \<open>P\<close>, \<open>handleGenerate\<close> goes through the loading state and ends with the image
  \<open>"data:" + mimeType + ";base64," + P\<close> (the MIME type of the encoder), not loading and
  without error, after one call to the encoder and one to the service.
\<close>

theorem C5_generate_success:
  assumes "originalImageFile s = Some file" and "prompt s \<noteq> []"
    and "fileToGenerativePart (rd file) = Inr part"
    and "svc (data part) (mimeType part) (prompt s) = Inr P"
  shows "handleGenerate rd svc s =
     ([s\<lparr>isLoading := True, error := None, editedImageData := None\<rparr>,
       s\<lparr>isLoading := False, error := None,
         editedImageData := Some (lit ''data:'' @ mimeType part @ lit '';base64,'' @ P)\<rparr>],
      [EncoderCall file, ServiceCall (data part) (mimeType part) (prompt s)])"
  using assms
  by (simp add: handleGenerate_def generate_try_def generate_begin_def generate_settle_def)

theorem C5_generate_success_witness:
  "handleGenerate (\<lambda>f. OnLoad (Some (lit ''data:image/jpeg;base64,LzlqLzRB'')))
     (\<lambda>d m p. Inr (lit ''iVBORw0KG''))
     (initial_state\<lparr>originalImageFile := Some (0::nat), prompt := lit ''make it neon''\<rparr>) =
   ([initial_state\<lparr>originalImageFile := Some 0, prompt := lit ''make it neon'',
       isLoading := True, error := None, editedImageData := None\<rparr>,
     initial_state\<lparr>originalImageFile := Some 0, prompt := lit ''make it neon'',
       isLoading := False, error := None,
       editedImageData := Some (lit ''data:'' @ lit ''image/jpeg'' @ lit '';base64,'' @ lit ''iVBORw0KG'')\<rparr>],
    [EncoderCall 0, ServiceCall (lit ''LzlqLzRB'') (lit ''image/jpeg'') (lit ''make it neon'')])"
proof -
  have e: "fileToGenerativePart (OnLoad (Some (lit ''data:image/jpeg;base64,LzlqLzRB''))) =
     Inr \<lparr>mimeType = lit ''image/jpeg'', data = lit ''LzlqLzRB''\<rparr>"
    by (simp add: fileToGenerativePart_def lit_def comma_def colon_def
      semicolon_def is_line_terminator_def)
  have p: "prompt (initial_state\<lparr>originalImageFile := Some (0::nat), prompt := lit ''make it neon''\<rparr>) \<noteq> []"
    by (simp add: lit_def)
  show ?thesis
    using C5_generate_success [of
      "initial_state\<lparr>originalImageFile := Some (0::nat), prompt := lit ''make it neon''\<rparr>" 0
      "\<lambda>f. OnLoad (Some (lit ''data:image/jpeg;base64,LzlqLzRB''))"
      "\<lparr>mimeType = lit ''image/jpeg'', data = lit ''LzlqLzRB''\<rparr>"
      "\<lambda>d m p. Inr (lit ''iVBORw0KG'')" "lit ''iVBORw0KG''", OF _ p e]
    by simp
qed

text \<open>
  C6. With a file and a prompt, when the encoder or the service rejects with \<open>e\<close>,
  \<open>handleGenerate\<close> goes through the loading state and ends not loading, without
  result, and with the message of \<open>e\<close> as error, or the generic message when \<open>e\<close> has
  no message or an empty one. Another \<open>handleGenerate\<close> from that state starts by
  clearing the error and loading again.
\<close>

theorem C6_generate_failure:
  assumes "originalImageFile s = Some file" and "prompt s \<noteq> []"
    and "fileToGenerativePart (rd file) = Inl e \<or>
         (\<exists>part. fileToGenerativePart (rd file) = Inr part \<and>
                 svc (data part) (mimeType part) (prompt s) = Inl e)"
  shows "\<exists>failed.
     fst (handleGenerate rd svc s) =
       [s\<lparr>isLoading := True, error := None, editedImageData := None\<rparr>, failed] \<and>
     failed = s\<lparr>isLoading := False,
                 error := Some (case message e of
                     None \<Rightarrow> lit ''An unknown error occurred while communicating with the AI.''
                   | Some m \<Rightarrow>
                       if m = []
                       then lit ''An unknown error occurred while communicating with the AI.''
                       else m),
                 editedImageData := None\<rparr> \<and>
     (\<forall>rd' svc'. \<exists>rest.
        fst (handleGenerate rd' svc' failed) =
          failed\<lparr>isLoading := True, error := None, editedImageData := None\<rparr> # rest)"
proof -
  from assms(3) have t: "fst (generate_try rd svc file (prompt s)) = Inl e"
    by (auto simp: generate_try_def)
  obtain cs where "generate_try rd svc file (prompt s) = (Inl e, cs)"
    using t by (cases "generate_try rd svc file (prompt s)") auto
  with assms(1,2) have
    "fst (handleGenerate rd svc s) =
       [s\<lparr>isLoading := True, error := None, editedImageData := None\<rparr>,
        s\<lparr>isLoading := False,
          error := Some (case message e of
                     None \<Rightarrow> lit ''An unknown error occurred while communicating with the AI.''
                   | Some m \<Rightarrow>
                       if m = []
                       then lit ''An unknown error occurred while communicating with the AI.''
                       else m),
          editedImageData := None\<rparr>]"
    by (simp add: handleGenerate_def generate_begin_def generate_settle_def message_or_def
        unknown_error_message_def)
  moreover have "\<exists>rest. fst (handleGenerate rd' svc' (s\<lparr>isLoading := False, error := x,
          editedImageData := None\<rparr>)) =
      (s\<lparr>isLoading := False, error := x, editedImageData := None\<rparr>)
        \<lparr>isLoading := True, error := None, editedImageData := None\<rparr> # rest" for rd' svc' x
    using assms(1,2)
    by (simp add: handleGenerate_def generate_begin_def split: prod.splits)
  ultimately show ?thesis by blast
qed

theorem C6_generate_failure_witness:
  "fst (handleGenerate (\<lambda>f. OnError (ProgressEvent (lit ''NotReadableError'')))
     (\<lambda>d m p. Inr (lit ''iVBORw0KG''))
     (initial_state\<lparr>originalImageFile := Some (0::nat), prompt := lit ''make it neon''\<rparr>)) =
   [initial_state\<lparr>originalImageFile := Some 0, prompt := lit ''make it neon'',
       isLoading := True, error := None, editedImageData := None\<rparr>,
    initial_state\<lparr>originalImageFile := Some 0, prompt := lit ''make it neon'',
       isLoading := False,
       error := Some (lit ''An unknown error occurred while communicating with the AI.''),
       editedImageData := None\<rparr>] \<and>
   fst (handleGenerate (\<lambda>f. OnLoad (Some (lit ''data:image/jpeg;base64,LzlqLzRB'')))
     (\<lambda>d m p. Inl (Error (lit ''Quota exceeded'')))
     (initial_state\<lparr>originalImageFile := Some (0::nat), prompt := lit ''make it neon''\<rparr>)) =
   [initial_state\<lparr>originalImageFile := Some 0, prompt := lit ''make it neon'',
       isLoading := True, error := None, editedImageData := None\<rparr>,
    initial_state\<lparr>originalImageFile := Some 0, prompt := lit ''make it neon'',
       isLoading := False, error := Some (lit ''Quota exceeded''), editedImageData := None\<rparr>]"
proof -
  let ?s = "initial_state\<lparr>originalImageFile := Some (0::nat), prompt := lit ''make it neon''\<rparr>"
  have f: "originalImageFile ?s = Some 0" by simp
  have p: "prompt ?s \<noteq> []" by (simp add: lit_def)
  have e1: "fileToGenerativePart (OnError (ProgressEvent (lit ''NotReadableError''))) =
      Inl (HostEvent (ProgressEvent (lit ''NotReadableError'')))"
    by (simp add: fileToGenerativePart_def)
  have e2: "fileToGenerativePart (OnLoad (Some (lit ''data:image/jpeg;base64,LzlqLzRB''))) =
     Inr \<lparr>mimeType = lit ''image/jpeg'', data = lit ''LzlqLzRB''\<rparr>"
    by (simp add: fileToGenerativePart_def lit_def comma_def colon_def
      semicolon_def is_line_terminator_def)
  have m: "lit ''Quota exceeded'' \<noteq> []" by (simp add: lit_def)
  have h1: "fileToGenerativePart (OnError (ProgressEvent (lit ''NotReadableError''))) =
        Inl (HostEvent (ProgressEvent (lit ''NotReadableError''))) \<or>
      (\<exists>part. fileToGenerativePart (OnError (ProgressEvent (lit ''NotReadableError''))) = Inr part \<and>
         (Inr (lit ''iVBORw0KG'') :: thrown + jsstring) =
           Inl (HostEvent (ProgressEvent (lit ''NotReadableError''))))"
    using e1 by blast
  have h2: "fileToGenerativePart (OnLoad (Some (lit ''data:image/jpeg;base64,LzlqLzRB''))) =
        Inl (Error (lit ''Quota exceeded'')) \<or>
      (\<exists>part. fileToGenerativePart (OnLoad (Some (lit ''data:image/jpeg;base64,LzlqLzRB''))) = Inr part \<and>
         (Inl (Error (lit ''Quota exceeded'')) :: thrown + jsstring) = Inl (Error (lit ''Quota exceeded'')))"
    using e2 by blast
  from C6_generate_failure [of ?s 0 "\<lambda>f. OnError (ProgressEvent (lit ''NotReadableError''))"
      "HostEvent (ProgressEvent (lit ''NotReadableError''))" "\<lambda>d m p. Inr (lit ''iVBORw0KG'')",
      OF f p h1]
  have r1: "fst (handleGenerate (\<lambda>f. OnError (ProgressEvent (lit ''NotReadableError'')))
     (\<lambda>d m p. Inr (lit ''iVBORw0KG'')) ?s) =
   [?s\<lparr>isLoading := True, error := None, editedImageData := None\<rparr>,
    ?s\<lparr>isLoading := False,
       error := Some (lit ''An unknown error occurred while communicating with the AI.''),
       editedImageData := None\<rparr>]"
    by auto
  from C6_generate_failure [of ?s 0 "\<lambda>f. OnLoad (Some (lit ''data:image/jpeg;base64,LzlqLzRB''))"
      "Error (lit ''Quota exceeded'')" "\<lambda>d m p. Inl (Error (lit ''Quota exceeded''))",
      OF f p h2] m
  have r2: "fst (handleGenerate (\<lambda>f. OnLoad (Some (lit ''data:image/jpeg;base64,LzlqLzRB'')))
     (\<lambda>d m p. Inl (Error (lit ''Quota exceeded''))) ?s) =
   [?s\<lparr>isLoading := True, error := None, editedImageData := None\<rparr>,
    ?s\<lparr>isLoading := False, error := Some (lit ''Quota exceeded''), editedImageData := None\<rparr>]"
    by auto
  from r1 r2 show ?thesis by simp
qed

text \<open>
  C7. In every session that the events can produce from the initial one: while loading,
  neither a result nor an error is held; and exactly one of no result, a success result
  and an error result holds. (The Generate button is disabled while loading and while a
  file or the prompt is missing, so the validation branch of \<open>handleGenerate\<close> never
  runs from the button.)
\<close>

theorem C7_busy_excludes_result:
  "(isLoading (view (run rd svc evs initial_session)) \<longrightarrow>
      editedImageData (view (run rd svc evs initial_session)) = None \<and>
      error (view (run rd svc evs initial_session)) = None) \<and>
   ((no_result (view (run rd svc evs initial_session)) \<and>
     \<not> success_result (view (run rd svc evs initial_session)) \<and>
     \<not> error_result (view (run rd svc evs initial_session))) \<or>
    (\<not> no_result (view (run rd svc evs initial_session)) \<and>
     success_result (view (run rd svc evs initial_session)) \<and>
     \<not> error_result (view (run rd svc evs initial_session))) \<or>
    (\<not> no_result (view (run rd svc evs initial_session)) \<and>
     \<not> success_result (view (run rd svc evs initial_session)) \<and>
     error_result (view (run rd svc evs initial_session))))"
  using session_inv_reachable [of rd svc evs]
  unfolding session_inv_def no_result_def success_result_def error_result_def
  by auto

theorem C7_busy_excludes_result_witness:
  "isLoading (view (run (\<lambda>f. OnLoad (Some (lit ''data:image/jpeg;base64,LzlqLzRB'')))
       (\<lambda>d m p. Inr (lit ''iVBORw0KG''))
       [SelectFile (0::nat), TypePrompt (lit ''make it neon''), ClickGenerate] initial_session)) \<and>
   editedImageData (view (run (\<lambda>f. OnLoad (Some (lit ''data:image/jpeg;base64,LzlqLzRB'')))
       (\<lambda>d m p. Inr (lit ''iVBORw0KG''))
       [SelectFile (0::nat), TypePrompt (lit ''make it neon''), ClickGenerate] initial_session)) = None \<and>
   error (view (run (\<lambda>f. OnLoad (Some (lit ''data:image/jpeg;base64,LzlqLzRB'')))
       (\<lambda>d m p. Inr (lit ''iVBORw0KG''))
       [SelectFile (0::nat), TypePrompt (lit ''make it neon''), ClickGenerate] initial_session)) = None"
proof -
  let ?\<sigma> = "run (\<lambda>f. OnLoad (Some (lit ''data:image/jpeg;base64,LzlqLzRB'')))
       (\<lambda>d m p. Inr (lit ''iVBORw0KG''))
       [SelectFile (0::nat), TypePrompt (lit ''make it neon''), ClickGenerate] initial_session"
  have "isLoading (view ?\<sigma>)"
    by (simp add: ui_step_def initial_session_def initial_state_def handleFileSelect_def
        generate_disabled_def generate_begin_def lit_def)
  with C7_busy_excludes_result [of "\<lambda>f. OnLoad (Some (lit ''data:image/jpeg;base64,LzlqLzRB''))"
      "\<lambda>d m p. Inr (lit ''iVBORw0KG'')"
      "[SelectFile (0::nat), TypePrompt (lit ''make it neon''), ClickGenerate]"]
  show ?thesis by blast
qed

text \<open>
  C9. \<open>handleDownload\<close> does nothing when no result is held. When a non-empty result is
  held, the link points at the stored string itself and the file is named \<open>h4x_edit_\<close>,
  the decimal digits of the time in milliseconds, \<open>.png\<close>, whatever the format in the
  stored string. Whenever the Download button is rendered the download happens, and in
  every session that the events can produce a held result is not empty, so there the
  download happens exactly when a result is held.
\<close>

theorem C9_download:
  "(editedImageData s = None \<longrightarrow> handleDownload now s = None) \<and>
   (editedImageData s = Some img \<and> img \<noteq> [] \<longrightarrow>
      handleDownload now s =
        Some \<lparr>href = img,
              download = lit ''h4x_edit_'' @ number_to_string now @ lit ''.png''\<rparr>) \<and>
   (0 \<le> now \<longrightarrow> decimal_value (number_to_string now) = nat now) \<and>
   (download_rendered s \<longrightarrow> handleDownload now s \<noteq> None) \<and>
   (handleDownload now (view (run rd svc evs initial_session)) = None \<longleftrightarrow>
      editedImageData (view (run rd svc evs initial_session)) = None)"
proof -
  have "editedImageData (view (run rd svc evs initial_session)) \<noteq> Some []"
    using session_inv_reachable [of rd svc evs] by (simp add: session_inv_def)
  then have "handleDownload now (view (run rd svc evs initial_session)) = None \<longleftrightarrow>
      editedImageData (view (run rd svc evs initial_session)) = None"
    by (simp add: handleDownload_None_iff)
  moreover have "0 \<le> now \<longrightarrow> decimal_value (number_to_string now) = nat now"
    by (simp add: number_to_string_def decimal_value_digits_of)
  moreover have "download_rendered s \<longrightarrow> handleDownload now s \<noteq> None"
    by (simp add: download_rendered_def handleDownload_None_iff)
  moreover have "editedImageData s = None \<longrightarrow> handleDownload now s = None"
    by (simp add: handleDownload_def)
  moreover have "editedImageData s = Some img \<and> img \<noteq> [] \<longrightarrow>
      handleDownload now s =
        Some \<lparr>href = img,
              download = lit ''h4x_edit_'' @ number_to_string now @ lit ''.png''\<rparr>"
    by (simp add: handleDownload_def)
  ultimately show ?thesis by blast
qed

theorem C9_download_witness:
  "handleDownload 1700000000000
     (view (run (\<lambda>f. OnLoad (Some (lit ''data:image/jpeg;base64,LzlqLzRB'')))
       (\<lambda>d m p. Inr (lit ''iVBORw0KG''))
       [SelectFile (0::nat), TypePrompt (lit ''make it neon''), ClickGenerate, Settle]
       initial_session)) =
   Some \<lparr>href = lit ''data:image/jpeg;base64,iVBORw0KG'',
         download = lit ''h4x_edit_1700000000000.png''\<rparr> \<and>
   handleDownload 1700000000000 (initial_state :: nat app_state) = None"
proof -
  let ?v = "view (run (\<lambda>f. OnLoad (Some (lit ''data:image/jpeg;base64,LzlqLzRB'')))
       (\<lambda>d m p. Inr (lit ''iVBORw0KG''))
       [SelectFile (0::nat), TypePrompt (lit ''make it neon''), ClickGenerate, Settle]
       initial_session)"
  have e: "fileToGenerativePart (OnLoad (Some (lit ''data:image/jpeg;base64,LzlqLzRB''))) =
     Inr \<lparr>mimeType = lit ''image/jpeg'', data = lit ''LzlqLzRB''\<rparr>"
    by (simp add: fileToGenerativePart_def lit_def comma_def colon_def
      semicolon_def is_line_terminator_def)
  have v: "editedImageData ?v = Some (lit ''data:image/jpeg;base64,iVBORw0KG'')"
    by (simp add: ui_step_def initial_session_def initial_state_def handleFileSelect_def
        generate_disabled_def generate_begin_def generate_try_def generate_settle_def e)
      (simp add: lit_def)
  have n: "lit ''data:image/jpeg;base64,iVBORw0KG'' \<noteq> []" by (simp add: lit_def)
  have name: "lit ''h4x_edit_'' @ number_to_string 1700000000000 @ lit ''.png'' =
      lit ''h4x_edit_1700000000000.png''"
    by (simp add: number_to_string_def digits_of.simps lit_def)
  have i: "editedImageData (initial_state :: nat app_state) = None"
    by (simp add: initial_state_def)
  from C9_download [of ?v 1700000000000 "lit ''data:image/jpeg;base64,iVBORw0KG''"] v n
  have r1: "handleDownload 1700000000000 ?v =
      Some \<lparr>href = lit ''data:image/jpeg;base64,iVBORw0KG'',
         download = lit ''h4x_edit_'' @ number_to_string 1700000000000 @ lit ''.png''\<rparr>"
    by blast
  from C9_download [of "initial_state :: nat app_state" 1700000000000] i
  have r2: "handleDownload 1700000000000 (initial_state :: nat app_state) = None"
    by blast
  from r1 r2 show ?thesis unfolding name by blast
qed

end
